theory Spec2Isabelle
  imports Complex_Main "HOL-Library.Log_Nat"
begin

section \<open>Quizzo: the challenge session engine of \<^verbatim>\<open>app.py\<close>\<close>

text \<open>
  This theory embeds the four route handlers of \<^verbatim>\<open>src/app.py\<close> that make up the
  challenge session engine (\<^verbatim>\<open>start_challenge\<close>, \<^verbatim>\<open>take_challenge\<close>,
  \<^verbatim>\<open>submit_challenge_answer\<close>, \<^verbatim>\<open>challenge_results\<close>) and the scoring
  function \<^verbatim>\<open>calculate_challenge_points\<close>. The database is an explicit state that
  every handler takes and returns; each \<^verbatim>\<open>flash\<close>/\<^verbatim>\<open>redirect\<close> exit and each
  exception caught by a handler's \<^verbatim>\<open>except Exception\<close> is a value of the result type.
\<close>

subsection \<open>Python numbers\<close>

text \<open>
  Python's \<^verbatim>\<open>float\<close> is an IEEE 754 double. A double is modelled by the rational number
  it denotes; \<open>to_double\<close> rounds a rational to the nearest number with a 53 bit
  significand, ties to the even significand. The exponent range of doubles is not
  modelled (no overflow to infinity, no subnormals): the quotients of counts and of
  microsecond durations computed here stay far inside it.
\<close>

definition pow2 :: "int \<Rightarrow> rat" where
  "pow2 e = (if 0 \<le> e then 2 ^ nat e else 1 / 2 ^ nat (- e))"

definition round_half_even :: "rat \<Rightarrow> int" where
  "round_half_even x =
     (let f = \<lfloor>x\<rfloor>; d = x - of_int f
      in if d < 1 / 2 then f else if 1 / 2 < d then f + 1 else if even f then f else f + 1)"

definition binade :: "rat \<Rightarrow> int" where
  \<comment> \<open>for \<open>0 < x\<close>: the \<open>e\<close> with \<open>2 ^ e \<le> x < 2 ^ (e + 1)\<close>\<close>
  "binade x =
     (let (p, q) = quotient_of x; k = bitlen p - bitlen q
      in if pow2 k \<le> x then k else k - 1)"

definition to_double :: "rat \<Rightarrow> rat" where
  "to_double x =
     (if x = 0 then 0
      else let a = \<bar>x\<bar>; u = pow2 (binade a - 52); m = round_half_even (a / u)
           in sgn x * of_int m * u)"

definition float_of_int :: "int \<Rightarrow> rat" where
  \<comment> \<open>the conversion of an \<^verbatim>\<open>int\<close> operand of a mixed \<^verbatim>\<open>float\<close> operation\<close>
  "float_of_int n = to_double (of_int n)"

definition int_truediv :: "int \<Rightarrow> int \<Rightarrow> rat" where
  \<comment> \<open>\<^verbatim>\<open>a / b\<close> on two \<^verbatim>\<open>int\<close>s: the correctly rounded quotient; callers exclude \<open>b = 0\<close>\<close>
  "int_truediv a b = to_double (of_int a / of_int b)"

definition float_div :: "rat \<Rightarrow> rat \<Rightarrow> rat" where
  "float_div a b = to_double (a / b)"

definition float_mul :: "rat \<Rightarrow> rat \<Rightarrow> rat" where
  "float_mul a b = to_double (a * b)"

definition py_round :: "rat \<Rightarrow> int" where
  \<comment> \<open>\<^verbatim>\<open>round(x)\<close> of a \<^verbatim>\<open>float\<close>, one argument: to the nearest \<^verbatim>\<open>int\<close>, ties to even\<close>
  "py_round x = round_half_even x"

definition round_percentage :: "int \<Rightarrow> int \<Rightarrow> int" where
  \<comment> \<open>\<^verbatim>\<open>round((correct_answers / len(questions)) * 100)\<close>\<close>
  "round_percentage correct_answers n =
     py_round (float_mul (int_truediv correct_answers n) (float_of_int 100))"

definition total_seconds :: "int \<Rightarrow> rat" where
  \<comment> \<open>\<^verbatim>\<open>timedelta.total_seconds()\<close> of a duration held in microseconds\<close>
  "total_seconds us = int_truediv us (10 ^ 6)"

subsection \<open>Python strings\<close>

text \<open>
  A \<^verbatim>\<open>str\<close> is modelled as a \<open>string\<close> whose characters are the code points
  below 256; \<^verbatim>\<open>str.strip()\<close> and \<^verbatim>\<open>str.lower()\<close> are written out for that range
  (Python's white space there is 9 to 13, 28 to 32, 133 and 160; its upper case letters are
  65 to 90 and 192 to 222 without 215).
\<close>

definition py_isspace :: "char \<Rightarrow> bool" where
  "py_isspace c =
     (let n = (of_char c :: nat)
      in (9 \<le> n \<and> n \<le> 13) \<or> (28 \<le> n \<and> n \<le> 32) \<or> n = 133 \<or> n = 160)"

definition py_strip :: "string \<Rightarrow> string" where
  "py_strip s = rev (dropWhile py_isspace (rev (dropWhile py_isspace s)))"

definition py_lower_char :: "char \<Rightarrow> char" where
  "py_lower_char c =
     (let n = (of_char c :: nat)
      in if (65 \<le> n \<and> n \<le> 90) \<or> (192 \<le> n \<and> n \<le> 222 \<and> n \<noteq> 215)
         then char_of (n + 32) else c)"

definition py_lower :: "string \<Rightarrow> string" where
  "py_lower s = map py_lower_char s"

definition py_truthy_str :: "string option \<Rightarrow> bool" where
  \<comment> \<open>\<^verbatim>\<open>if answer:\<close> on a form value: neither \<^verbatim>\<open>None\<close> nor the empty string\<close>
  "py_truthy_str x = (case x of None \<Rightarrow> False | Some s \<Rightarrow> s \<noteq> [])"

subsection \<open>The data model\<close>

text \<open>
  The columns of the four tables that the engine reads or writes. A \<^verbatim>\<open>DateTime\<close> is the
  number of microseconds since the epoch, in UTC (the scoring function reads a naive
  timestamp as UTC). A table is the list of its rows in primary key order.
\<close>

record challenge =
  c_id :: int
  c_time_limit_minutes :: "int option"
  c_max_attempts :: "int option"
  c_passing_score :: int
  c_is_active :: bool

record challenge_question =
  q_id :: int
  q_challenge_id :: int
  q_question_type :: string
  q_option_a :: "string option"
  q_option_b :: "string option"
  q_option_c :: "string option"
  q_option_d :: "string option"
  q_correct_option :: "string option"
  q_answer :: "string option"
  q_order_index :: int

record points_breakdown =
  base_points :: int
  correctness_bonus :: int
  speed_bonus :: int
  completion_bonus :: int
  first_completion_bonus :: int
  total_points :: int

record challenge_session =
  s_id :: int
  s_student_id :: int
  s_challenge_id :: int
  s_start_time :: "int option"
  s_end_time :: "int option"
  s_status :: string
  s_score :: int
  s_percentage :: rat
  s_points :: int
  s_points_breakdown :: "points_breakdown option"

record challenge_answer =
  a_id :: int
  a_session_id :: int
  a_question_id :: int
  a_answer :: string
  a_is_correct :: bool
  a_answered_at :: int

record db =
  challenges :: "challenge list"
  questions :: "challenge_question list"
  sessions :: "challenge_session list"
  answers :: "challenge_answer list"

record web_session =
  ws_user_id :: "int option"
  ws_role :: "string option"

definition current_student :: "web_session \<Rightarrow> int option" where
  \<comment> \<open>\<^verbatim>\<open>session['user_id']\<close> when the guard
      \<^verbatim>\<open>'user_id' not in session or session.get('role') != 'student'\<close> lets the request pass\<close>
  "current_student ws =
     (case ws_user_id ws of
        None \<Rightarrow> None
      | Some uid \<Rightarrow> if ws_role ws = Some ''student'' then Some uid else None)"

subsection \<open>The scoring engine\<close>

definition earlier_completion :: "db \<Rightarrow> challenge \<Rightarrow> challenge_session \<Rightarrow> challenge_session option" where
  \<comment> \<open>the query of \<^verbatim>\<open>calculate_challenge_points\<close>: the first completed session of the
      challenge whose \<^verbatim>\<open>end_time\<close> is earlier than this session's; a comparison with
      \<^verbatim>\<open>NULL\<close> selects no row\<close>
  "earlier_completion d ch session_obj =
     find (\<lambda>s. s_challenge_id s = c_id ch \<and> s_status s = ''completed'' \<and>
                (case (s_end_time s, s_end_time session_obj) of
                   (Some e, Some e') \<Rightarrow> e < e'
                 | _ \<Rightarrow> False))
          (sessions d)"

definition speed_bonus_for :: "challenge \<Rightarrow> challenge_session \<Rightarrow> int" where
  "speed_bonus_for ch session_obj =
     (case (c_time_limit_minutes ch, s_end_time session_obj, s_start_time session_obj) of
        (Some time_limit, Some end_time, Some start_time) \<Rightarrow>
          if time_limit \<noteq> 0 then
            (let time_taken_seconds = total_seconds (end_time - start_time);
                 total_time_allowed = time_limit * 60;
                 time_ratio = float_div time_taken_seconds (float_of_int total_time_allowed)
             in if time_ratio \<le> to_double (1 / 2) then 100
                else if time_ratio \<le> to_double (7 / 10) then 50
                else if time_ratio \<le> to_double (85 / 100) then 25
                else 0)
          else 0
      | _ \<Rightarrow> 0)"

definition completion_bonus_for :: "rat \<Rightarrow> int" where
  "completion_bonus_for percentage =
     (if percentage \<ge> 90 then 50
      else if percentage \<ge> 80 then 30
      else if percentage \<ge> 70 then 20
      else if percentage \<ge> 60 then 10
      else 0)"

definition calculate_challenge_points ::
  "db \<Rightarrow> challenge_session \<Rightarrow> challenge \<Rightarrow> nat \<Rightarrow> points_breakdown" where
  "calculate_challenge_points d session_obj ch total_questions =
     (let base = 50;
          correctness = s_score session_obj * 10;
          speed = speed_bonus_for ch session_obj;
          completion = completion_bonus_for (s_percentage session_obj);
          first = (if earlier_completion d ch session_obj = None then 100 else 0)
      in \<lparr>base_points = base, correctness_bonus = correctness, speed_bonus = speed,
           completion_bonus = completion, first_completion_bonus = first,
           total_points = base + correctness + speed + completion + first\<rparr>)"

subsection \<open>Results of the handlers\<close>

text \<open>
  Every exit of a handler that is not its success is an \<open>error\<close>: a redirect with or
  without a flashed message. \<open>ServerError\<close> is the handler's \<^verbatim>\<open>except Exception\<close>
  branch ("An error occurred ..."), which also catches the \<^verbatim>\<open>NotFound\<close> of
  \<^verbatim>\<open>get_or_404\<close>.
\<close>

datatype error =
    NotLoggedIn
  | AccessDenied
  | ChallengeInactive
  | NoQuestions
  | AttemptLimitExceeded
  | SessionNotActive
  | EmptyAnswer
  | AlreadyAnswered
  | NotCompleted
  | ServerError

datatype py_exception = AttributeError

datatype start_ok = Resumed int | Created int

datatype submit_ok = AnswerSubmitted | TimeExpiredSubmitted | TimeExpiredNoAnswer

record progress =
  pr_current :: nat
  pr_total :: nat
  pr_percentage :: int

datatype take_ok =
    AlreadyCompleted
  | CompletedNow
  | ServeQuestion challenge_question progress "int option"

record results =
  r_session :: challenge_session
  r_total_questions :: nat
  r_correct_answers :: int
  r_percentage :: int
  r_passing_score :: int
  r_passed :: bool
  r_points_breakdown :: "points_breakdown option"

record answer_form =
  f_question_id :: "int option"
  f_answer :: "string option"
  f_auto_submit :: "string option"

subsection \<open>Queries\<close>

definition get_challenge :: "db \<Rightarrow> int \<Rightarrow> challenge option" where
  "get_challenge d challenge_id = find (\<lambda>c. c_id c = challenge_id) (challenges d)"

definition get_session :: "db \<Rightarrow> int \<Rightarrow> challenge_session option" where
  "get_session d session_id = find (\<lambda>s. s_id s = session_id) (sessions d)"

definition get_question :: "db \<Rightarrow> int \<Rightarrow> challenge_question option" where
  "get_question d question_id = find (\<lambda>q. q_id q = question_id) (questions d)"

definition questions_of :: "db \<Rightarrow> int \<Rightarrow> challenge_question list" where
  \<comment> \<open>\<^verbatim>\<open>filter_by(challenge_id=...).order_by(order_index).all()\<close>\<close>
  "questions_of d challenge_id =
     sort_key q_order_index (filter (\<lambda>q. q_challenge_id q = challenge_id) (questions d))"

definition question_count :: "db \<Rightarrow> int \<Rightarrow> nat" where
  "question_count d challenge_id =
     length (filter (\<lambda>q. q_challenge_id q = challenge_id) (questions d))"

definition answers_of :: "db \<Rightarrow> int \<Rightarrow> challenge_answer list" where
  "answers_of d session_id = filter (\<lambda>a. a_session_id a = session_id) (answers d)"

definition existing_answer :: "db \<Rightarrow> int \<Rightarrow> int \<Rightarrow> challenge_answer option" where
  "existing_answer d session_id question_id =
     find (\<lambda>a. a_session_id a = session_id \<and> a_question_id a = question_id) (answers d)"

definition attempt_count :: "db \<Rightarrow> int \<Rightarrow> int \<Rightarrow> int" where
  \<comment> \<open>all sessions of the student for the challenge, whatever their status\<close>
  "attempt_count d challenge_id uid =
     int (length (filter (\<lambda>s. s_challenge_id s = challenge_id \<and> s_student_id s = uid)
                         (sessions d)))"

definition ongoing_session :: "db \<Rightarrow> int \<Rightarrow> int \<Rightarrow> challenge_session option" where
  "ongoing_session d challenge_id uid =
     find (\<lambda>s. s_challenge_id s = challenge_id \<and> s_student_id s = uid \<and>
                s_status s = ''in_progress'')
          (sessions d)"


definition next_id :: "int list \<Rightarrow> int" where
  \<comment> \<open>the primary key the database gives the next row\<close>
  "next_id ids = foldr max ids 0 + 1"

definition update_session :: "db \<Rightarrow> challenge_session \<Rightarrow> db" where
  \<comment> \<open>the \<^verbatim>\<open>UPDATE\<close> that a commit issues for a changed session object\<close>
  "update_session d cs =
     d\<lparr>sessions := map (\<lambda>s. if s_id s = s_id cs then cs else s) (sessions d)\<rparr>"

subsection \<open>\<^verbatim>\<open>start_challenge\<close>\<close>

definition attempt_limit_reached :: "db \<Rightarrow> challenge \<Rightarrow> int \<Rightarrow> int \<Rightarrow> bool" where
  \<comment> \<open>\<^verbatim>\<open>if challenge.max_attempts:\<close> and then \<^verbatim>\<open>attempt_count >= challenge.max_attempts\<close>\<close>
  "attempt_limit_reached d ch challenge_id uid =
     (case c_max_attempts ch of
        None \<Rightarrow> False
      | Some m \<Rightarrow> m \<noteq> 0 \<and> attempt_count d challenge_id uid \<ge> m)"

definition new_session :: "db \<Rightarrow> int \<Rightarrow> int \<Rightarrow> int \<Rightarrow> challenge_session" where
  "new_session d challenge_id uid now =
     \<lparr>s_id = next_id (map s_id (sessions d)), s_student_id = uid,
      s_challenge_id = challenge_id, s_start_time = Some now, s_end_time = None,
      s_status = ''in_progress'', s_score = 0, s_percentage = 0, s_points = 0,
      s_points_breakdown = None\<rparr>"

text \<open>
  The handler also runs a query for a completed session of the student
  (\<^verbatim>\<open>existing_session\<close>) whose result it never reads; it is left out.
\<close>

definition start_challenge ::
  "db \<Rightarrow> web_session \<Rightarrow> int \<Rightarrow> int \<Rightarrow> db \<times> (error + start_ok)" where
  "start_challenge d ws challenge_id now =
     (case current_student ws of
        None \<Rightarrow> (d, Inl NotLoggedIn)
      | Some uid \<Rightarrow>
          (case get_challenge d challenge_id of
             None \<Rightarrow> (d, Inl ServerError)
           | Some ch \<Rightarrow>
               if \<not> c_is_active ch then (d, Inl ChallengeInactive)
               else if question_count d challenge_id = 0 then (d, Inl NoQuestions)
               else if attempt_limit_reached d ch challenge_id uid
                 then (d, Inl AttemptLimitExceeded)
               else
                 (case ongoing_session d challenge_id uid of
                    Some s \<Rightarrow> (d, Inr (Resumed (s_id s)))
                  | None \<Rightarrow>
                      (let s = new_session d challenge_id uid now
                       in (d\<lparr>sessions := sessions d @ [s]\<rparr>, Inr (Created (s_id s)))))))"

subsection \<open>\<^verbatim>\<open>take_challenge\<close>\<close>

fun first_unanswered ::
  "challenge_question list \<Rightarrow> int list \<Rightarrow> nat \<Rightarrow> (challenge_question \<times> nat) option" where
  \<comment> \<open>the loop over \<^verbatim>\<open>enumerate(questions)\<close>; the third argument is \<^verbatim>\<open>i\<close>\<close>
  "first_unanswered [] answered_question_ids i = None"
| "first_unanswered (question # rest) answered_question_ids i =
     (if q_id question \<notin> set answered_question_ids then Some (question, i + 1)
      else first_unanswered rest answered_question_ids (i + 1))"

definition correct_count :: "challenge_answer list \<Rightarrow> int" where
  \<comment> \<open>\<^verbatim>\<open>sum(1 for ans in answered_questions if ans.is_correct)\<close>\<close>
  "correct_count answered_questions = int (length (filter a_is_correct answered_questions))"

definition complete_session ::
  "db \<Rightarrow> challenge_session \<Rightarrow> challenge \<Rightarrow> nat \<Rightarrow> challenge_answer list \<Rightarrow> int \<Rightarrow> db" where
  \<comment> \<open>the branch \<^verbatim>\<open>if current_question is None:\<close>. The query inside the scoring function
      flushes the changed session first, so it reads the store with the new status and
      end time.\<close>
  "complete_session d cs ch n answered_questions now =
     (let correct_answers = correct_count answered_questions;
          cs1 = cs\<lparr>s_score := correct_answers,
                   s_percentage := of_int (round_percentage correct_answers (int n)),
                   s_status := ''completed'',
                   s_end_time := Some now\<rparr>;
          pb = calculate_challenge_points (update_session d cs1) cs1 ch n;
          cs2 = cs1\<lparr>s_points := total_points pb, s_points_breakdown := Some pb\<rparr>
      in update_session d cs2)"

definition per_question_time :: "challenge \<Rightarrow> nat \<Rightarrow> int option" where
  "per_question_time ch n =
     (case c_time_limit_minutes ch of
        None \<Rightarrow> None
      | Some m \<Rightarrow> if m \<noteq> 0 then Some ((m * 60) div int n) else None)"

definition take_challenge ::
  "db \<Rightarrow> web_session \<Rightarrow> int \<Rightarrow> int \<Rightarrow> db \<times> (error + take_ok)" where
  "take_challenge d ws session_id now =
     (case current_student ws of
        None \<Rightarrow> (d, Inl NotLoggedIn)
      | Some uid \<Rightarrow>
          (case get_session d session_id of
             None \<Rightarrow> (d, Inl ServerError)
           | Some cs \<Rightarrow>
               if s_student_id cs \<noteq> uid then (d, Inl AccessDenied)
               else if s_status cs = ''completed'' then (d, Inr AlreadyCompleted)
               else
                 (case get_challenge d (s_challenge_id cs) of
                    None \<Rightarrow> (d, Inl ServerError)
                  | Some ch \<Rightarrow>
                      (let qs = questions_of d (c_id ch) in
                       if qs = [] then (d, Inl NoQuestions)
                       else
                         (let answered_questions = answers_of d session_id;
                              answered_question_ids = map a_question_id answered_questions
                          in case first_unanswered qs answered_question_ids 0 of
                               None \<Rightarrow>
                                 (complete_session d cs ch (length qs) answered_questions now,
                                  Inr CompletedNow)
                             | Some (question, num) \<Rightarrow>
                                 (d, Inr (ServeQuestion question
                                     \<lparr>pr_current = num, pr_total = length qs,
                                      pr_percentage =
                                        round_percentage (int num - 1) (int (length qs))\<rparr>
                                     (per_question_time ch (length qs)))))))))"

subsection \<open>The answer validator and \<^verbatim>\<open>submit_challenge_answer\<close>\<close>

definition correct_option_text :: "challenge_question \<Rightarrow> string option" where
  \<comment> \<open>the \<^verbatim>\<open>if/elif\<close> chain on \<^verbatim>\<open>correct_option_letter\<close>; \<^verbatim>\<open>None\<close> in its \<^verbatim>\<open>else\<close>\<close>
  "correct_option_text question =
     (if q_correct_option question = Some ''A'' then q_option_a question
      else if q_correct_option question = Some ''B'' then q_option_b question
      else if q_correct_option question = Some ''C'' then q_option_c question
      else if q_correct_option question = Some ''D'' then q_option_d question
      else None)"

definition check_answer :: "challenge_question \<Rightarrow> string option \<Rightarrow> py_exception + bool" where
  \<comment> \<open>the block that computes \<^verbatim>\<open>is_correct\<close>. \<^verbatim>\<open>correct_answer.strip()\<close> on a
      \<^verbatim>\<open>None\<close> key raises \<^verbatim>\<open>AttributeError\<close>.\<close>
  "check_answer question answer =
     (case answer of
        None \<Rightarrow> Inr False
      | Some a \<Rightarrow>
          if a = [] then Inr False
          else if q_question_type question = ''multiple_choice''
            then Inr (Some a = correct_option_text question)
          else
            (case q_answer question of
               None \<Rightarrow> Inl AttributeError
             | Some correct_answer \<Rightarrow>
                 Inr (py_lower (py_strip a) = py_lower (py_strip correct_answer))))"

definition is_auto_submit :: "answer_form \<Rightarrow> bool" where
  \<comment> \<open>\<^verbatim>\<open>request.form.get('auto_submit', 'false') == 'true'\<close>\<close>
  "is_auto_submit form =
     ((case f_auto_submit form of None \<Rightarrow> ''false'' | Some v \<Rightarrow> v) = ''true'')"

definition new_answer :: "db \<Rightarrow> int \<Rightarrow> int \<Rightarrow> string option \<Rightarrow> bool \<Rightarrow> int \<Rightarrow> challenge_answer" where
  "new_answer d session_id question_id answer correct now =
     \<lparr>a_id = next_id (map a_id (answers d)), a_session_id = session_id,
      a_question_id = question_id,
      a_answer = (if py_truthy_str answer then (case answer of Some a \<Rightarrow> a | None \<Rightarrow> []) else []),
      a_is_correct = correct, a_answered_at = now\<rparr>"

definition submit_flash :: "answer_form \<Rightarrow> submit_ok" where
  "submit_flash form =
     (if is_auto_submit form
      then (if py_truthy_str (f_answer form) then TimeExpiredSubmitted else TimeExpiredNoAnswer)
      else AnswerSubmitted)"

text \<open>
  \<open>f_question_id\<close> is the value of \<^verbatim>\<open>int(request.form.get('question_id'))\<close>, \<open>None\<close>
  when the conversion raises.
\<close>

definition submit_challenge_answer ::
  "db \<Rightarrow> web_session \<Rightarrow> int \<Rightarrow> answer_form \<Rightarrow> int \<Rightarrow> db \<times> (error + submit_ok)" where
  "submit_challenge_answer d ws session_id form now =
     (case current_student ws of
        None \<Rightarrow> (d, Inl NotLoggedIn)
      | Some uid \<Rightarrow>
          (case get_session d session_id of
             None \<Rightarrow> (d, Inl ServerError)
           | Some cs \<Rightarrow>
               if s_student_id cs \<noteq> uid then (d, Inl AccessDenied)
               else if s_status cs = ''completed'' then (d, Inl SessionNotActive)
               else
                 (case f_question_id form of
                    None \<Rightarrow> (d, Inl ServerError)
                  | Some question_id \<Rightarrow>
                      if \<not> py_truthy_str (f_answer form) \<and> \<not> is_auto_submit form
                        then (d, Inl EmptyAnswer)
                      else
                        (case get_question d question_id of
                           None \<Rightarrow> (d, Inl ServerError)
                         | Some question \<Rightarrow>
                             (case check_answer question (f_answer form) of
                                Inl exn \<Rightarrow> (d, Inl ServerError)
                              | Inr correct \<Rightarrow>
                                  (case existing_answer d session_id question_id of
                                     Some a \<Rightarrow> (d, Inl AlreadyAnswered)
                                   | None \<Rightarrow>
                                       (d\<lparr>answers := answers d @
                                            [new_answer d session_id question_id
                                               (f_answer form) correct now]\<rparr>,
                                        Inr (submit_flash form))))))))"

subsection \<open>\<^verbatim>\<open>challenge_results\<close>\<close>

text \<open>
  The part of the handler that reads and writes the store and the numbers it hands to the
  template; the formatting of the time taken and the per-question review list are
  left out.
\<close>

definition challenge_results ::
  "db \<Rightarrow> web_session \<Rightarrow> int \<Rightarrow> db \<times> (error + results)" where
  "challenge_results d ws session_id =
     (case current_student ws of
        None \<Rightarrow> (d, Inl NotLoggedIn)
      | Some uid \<Rightarrow>
          (case get_session d session_id of
             None \<Rightarrow> (d, Inl ServerError)
           | Some cs \<Rightarrow>
               if s_student_id cs \<noteq> uid then (d, Inl AccessDenied)
               else if s_status cs \<noteq> ''completed'' then (d, Inl NotCompleted)
               else
                 (case get_challenge d (s_challenge_id cs) of
                    None \<Rightarrow> (d, Inl ServerError)
                  | Some ch \<Rightarrow>
                      (let total_questions = question_count d (c_id ch);
                           correct_answers = correct_count (answers_of d session_id);
                           percentage =
                             (if total_questions > 0
                              then round_percentage correct_answers (int total_questions)
                              else 0);
                           changed = (s_score cs \<noteq> correct_answers \<or>
                                      s_percentage cs \<noteq> of_int percentage);
                           cs' = (if changed
                                  then cs\<lparr>s_score := correct_answers,
                                          s_percentage := of_int percentage\<rparr>
                                  else cs);
                           d' = (if changed then update_session d cs' else d);
                           passing_score =
                             (if c_passing_score ch \<noteq> 0 then c_passing_score ch else 70)
                       in (d', Inr \<lparr>r_session = cs', r_total_questions = total_questions,
                                    r_correct_answers = correct_answers,
                                    r_percentage = percentage,
                                    r_passing_score = passing_score,
                                    r_passed = (percentage \<ge> passing_score),
                                    r_points_breakdown = s_points_breakdown cs'\<rparr>)))))"

subsection \<open>Example stores\<close>

text \<open>
  One challenge with a ten minute limit and two attempts, one multiple choice question,
  and the student with id 7.
\<close>

definition ex_student :: web_session where
  "ex_student = \<lparr>ws_user_id = Some 7, ws_role = Some ''student''\<rparr>"

definition ex_challenge :: challenge where
  "ex_challenge = \<lparr>c_id = 1, c_time_limit_minutes = Some 10, c_max_attempts = Some 2,
                    c_passing_score = 70, c_is_active = True\<rparr>"

definition ex_question :: challenge_question where
  "ex_question = \<lparr>q_id = 1, q_challenge_id = 1, q_question_type = ''multiple_choice'',
                   q_option_a = Some ''Paris'', q_option_b = Some ''Rome'',
                   q_option_c = Some ''Oslo'', q_option_d = Some ''Bern'',
                   q_correct_option = Some ''A'', q_answer = None, q_order_index = 0\<rparr>"

definition ex_session :: challenge_session where
  \<comment> \<open>completed four minutes after its start, 4 of 5 correct\<close>
  "ex_session = \<lparr>s_id = 1, s_student_id = 7, s_challenge_id = 1, s_start_time = Some 0,
                  s_end_time = Some 240000000, s_status = ''completed'', s_score = 4,
                  s_percentage = 80, s_points = 0, s_points_breakdown = None\<rparr>"

definition ex_rival :: challenge_session where
  \<comment> \<open>another student's session, completed earlier\<close>
  "ex_rival = \<lparr>s_id = 2, s_student_id = 8, s_challenge_id = 1, s_start_time = Some 0,
                s_end_time = Some 100000000, s_status = ''completed'', s_score = 1,
                s_percentage = 20, s_points = 160, s_points_breakdown = None\<rparr>"

definition ex_abandoned :: challenge_session where
  "ex_abandoned = \<lparr>s_id = 3, s_student_id = 7, s_challenge_id = 1, s_start_time = Some 0,
                    s_end_time = Some 100000000, s_status = ''abandoned'', s_score = 0,
                    s_percentage = 0, s_points = 0, s_points_breakdown = None\<rparr>"

definition ex_db_alone :: db where
  "ex_db_alone = \<lparr>challenges = [ex_challenge], questions = [],
                   sessions = [ex_session], answers = []\<rparr>"

definition ex_db_rival :: db where
  "ex_db_rival = \<lparr>challenges = [ex_challenge], questions = [],
                   sessions = [ex_session, ex_rival], answers = []\<rparr>"

definition ex_db_two_attempts :: db where
  "ex_db_two_attempts = \<lparr>challenges = [ex_challenge], questions = [ex_question],
                          sessions = [ex_session, ex_abandoned], answers = []\<rparr>"

definition ex_db_inactive :: db where
  "ex_db_inactive = \<lparr>challenges = [ex_challenge\<lparr>c_is_active := False\<rparr>],
                      questions = [ex_question], sessions = [], answers = []\<rparr>"

definition ex_in_progress :: challenge_session where
  "ex_in_progress = \<lparr>s_id = 4, s_student_id = 7, s_challenge_id = 1, s_start_time = Some 0,
                      s_end_time = None, s_status = ''in_progress'', s_score = 0,
                      s_percentage = 0, s_points = 0, s_points_breakdown = None\<rparr>"


definition ex_first_answer :: challenge_answer where
  "ex_first_answer = \<lparr>a_id = 1, a_session_id = 4, a_question_id = 1, a_answer = ''Rome'',
                       a_is_correct = False, a_answered_at = 3\<rparr>"

definition ex_text_question :: challenge_question where
  "ex_text_question = \<lparr>q_id = 2, q_challenge_id = 1, q_question_type = ''text'',
                   q_option_a = None, q_option_b = None, q_option_c = None, q_option_d = None,
                   q_correct_option = None, q_answer = None, q_order_index = 1\<rparr>"

definition ex_text_form :: answer_form where
  "ex_text_form = \<lparr>f_question_id = Some 2, f_answer = Some ''yes'', f_auto_submit = None\<rparr>"

definition ex_db_last_attempt :: db where
  "ex_db_last_attempt =
     \<lparr>challenges = [ex_challenge\<lparr>c_max_attempts := Some 1\<rparr>], questions = [ex_question],
      sessions = [ex_in_progress], answers = []\<rparr>"



definition ex_db_text :: db where
  "ex_db_text = \<lparr>challenges = [ex_challenge], questions = [ex_question, ex_text_question],
                  sessions = [ex_in_progress], answers = []\<rparr>"

definition ex_db_all_answered :: db where
  "ex_db_all_answered = \<lparr>challenges = [ex_challenge], questions = [ex_question],
                      sessions = [ex_rival, ex_in_progress],
                      answers = [ex_first_answer\<lparr>a_answer := ''Paris'', a_is_correct := True\<rparr>]\<rparr>"

definition ex_question_b :: challenge_question where
  "ex_question_b = \<lparr>q_id = 2, q_challenge_id = 1, q_question_type = ''multiple_choice'',
                     q_option_a = Some ''3'', q_option_b = Some ''4'', q_option_c = Some ''5'',
                     q_option_d = Some ''6'', q_correct_option = Some ''B'', q_answer = None,
                     q_order_index = 1\<rparr>"

definition ex_question_c :: challenge_question where
  "ex_question_c = \<lparr>q_id = 3, q_challenge_id = 1, q_question_type = ''multiple_choice'',
                     q_option_a = Some ''red'', q_option_b = Some ''blue'',
                     q_option_c = Some ''green'', q_option_d = Some ''grey'',
                     q_correct_option = Some ''C'', q_answer = None, q_order_index = 2\<rparr>"

definition ex_quiz_answers :: "challenge_answer list" where
  \<comment> \<open>session 4 answers questions 1 and 2 correctly and question 3 wrongly; the first row
      belongs to another session\<close>
  "ex_quiz_answers =
     [\<lparr>a_id = 1, a_session_id = 2, a_question_id = 1, a_answer = ''Paris'',
       a_is_correct = True, a_answered_at = 1\<rparr>,
      \<lparr>a_id = 2, a_session_id = 4, a_question_id = 1, a_answer = ''Paris'',
       a_is_correct = True, a_answered_at = 2\<rparr>,
      \<lparr>a_id = 3, a_session_id = 4, a_question_id = 2, a_answer = ''4'',
       a_is_correct = True, a_answered_at = 3\<rparr>,
      \<lparr>a_id = 4, a_session_id = 4, a_question_id = 3, a_answer = ''red'',
       a_is_correct = False, a_answered_at = 4\<rparr>]"

definition ex_db_quiz :: db where
  "ex_db_quiz = \<lparr>challenges = [ex_challenge],
                  questions = [ex_question, ex_question_b, ex_question_c],
                  sessions = [ex_rival, ex_in_progress], answers = ex_quiz_answers\<rparr>"

definition ex_db_zero_limit :: db where
  "ex_db_zero_limit =
     \<lparr>challenges = [ex_challenge\<lparr>c_max_attempts := Some 0\<rparr>], questions = [ex_question],
      sessions = [ex_session, ex_abandoned], answers = []\<rparr>"

section \<open>Properties\<close>

subsection \<open>Scoring\<close>

lemma ratio_240_600:
  "float_div (total_seconds 240000000) (float_of_int 600) \<le> to_double (1 / 2)"
  by code_simp

lemma round_percentage_4_5: "round_percentage 4 5 = 80"
  by code_simp

text \<open>
  The rounding of the percentage is the one of Python's doubles: with 115 of 200 answers
  correct the product \<^verbatim>\<open>0.575 * 100\<close> is just below 57.5 and rounds to 57.
\<close>

lemma round_percentage_115_200: "round_percentage 115 200 = 57"
  by code_simp

text \<open>
  Claim C3. A session with score 4 and percentage 80 (the percentage of 4 correct answers
  out of 5), on a challenge with a time limit of 10 minutes, that ended 4 minutes
  (240000000 microseconds) after its start, while the store holds no completed session of
  the challenge with an earlier end time, scores base 50, correctness 40, speed 100,
  completion 30, first completion 100 and total 320.
\<close>

theorem scoring_example:
  assumes "s_score s = 4" and "s_percentage s = of_int (round_percentage 4 5)"
    and "c_time_limit_minutes ch = Some 10"
    and "s_start_time s = Some t0" and "s_end_time s = Some (t0 + 240000000)"
    and "earlier_completion d ch s = None"
  shows "s_percentage s = 80 \<and>
         calculate_challenge_points d s ch 5 =
           \<lparr>base_points = 50, correctness_bonus = 40, speed_bonus = 100,
            completion_bonus = 30, first_completion_bonus = 100, total_points = 320\<rparr>"
proof -
  have pc: "s_percentage s = 80"
    using assms(2) by (simp add: round_percentage_4_5)
  have sp: "speed_bonus_for ch s = 100"
    using assms(3,4,5) ratio_240_600 by (simp add: speed_bonus_for_def)
  have cp: "completion_bonus_for (s_percentage s) = 30"
    using pc by (simp add: completion_bonus_for_def)
  show ?thesis
    using assms(1,6) pc sp cp by (simp add: calculate_challenge_points_def)
qed

theorem scoring_example_witness:
  "earlier_completion ex_db_alone ex_challenge ex_session = None \<and>
   calculate_challenge_points ex_db_alone ex_session ex_challenge 5 =
     \<lparr>base_points = 50, correctness_bonus = 40, speed_bonus = 100,
      completion_bonus = 30, first_completion_bonus = 100, total_points = 320\<rparr>"
proof -
  have h1: "s_score ex_session = 4" by (simp add: ex_session_def)
  have h2: "s_percentage ex_session = of_int (round_percentage 4 5)"
    by (simp add: ex_session_def round_percentage_4_5)
  have h3: "c_time_limit_minutes ex_challenge = Some 10" by (simp add: ex_challenge_def)
  have h4: "s_start_time ex_session = Some 0" by (simp add: ex_session_def)
  have h5: "s_end_time ex_session = Some (0 + 240000000)" by (simp add: ex_session_def)
  have e: "earlier_completion ex_db_alone ex_challenge ex_session = None"
    by (simp add: earlier_completion_def ex_db_alone_def ex_session_def ex_challenge_def)
  from scoring_example [OF h1 h2 h3 h4 h5 e] e show ?thesis by blast
qed

text \<open>
  Claim C9, as stated: the points breakdown is a function of the session, the challenge
  and the number of questions alone. It is not: the same session and challenge score 320
  in a store without an earlier completion and 220 in a store with one.
\<close>

theorem scoring_store_counterexample:
  "calculate_challenge_points ex_db_alone ex_session ex_challenge 5 \<noteq>
   calculate_challenge_points ex_db_rival ex_session ex_challenge 5"
  by (simp add: calculate_challenge_points_def earlier_completion_def ex_db_alone_def
      ex_db_rival_def ex_session_def ex_rival_def ex_challenge_def Let_def)

text \<open>
  Claim C9, amended. The points breakdown is a deterministic function of the session, the
  challenge and one fact about the store: whether it holds a completed session of the
  same challenge whose end time is earlier than this session's. Two invocations that agree
  on these return equal breakdowns; the number of questions passed in has no influence.
\<close>

theorem scoring_deterministic:
  assumes "(earlier_completion d1 ch s = None) = (earlier_completion d2 ch s = None)"
  shows "calculate_challenge_points d1 s ch n1 = calculate_challenge_points d2 s ch n2"
  using assms by (simp add: calculate_challenge_points_def)

theorem scoring_deterministic_witness:
  "calculate_challenge_points ex_db_alone ex_session ex_challenge 5 =
   calculate_challenge_points ex_db_two_attempts ex_session ex_challenge 7"
proof -
  have a: "earlier_completion ex_db_alone ex_challenge ex_session = None"
    by (simp add: earlier_completion_def ex_db_alone_def ex_session_def ex_challenge_def)
  have b: "earlier_completion ex_db_two_attempts ex_challenge ex_session = None"
    by (simp add: earlier_completion_def ex_db_two_attempts_def ex_session_def
        ex_abandoned_def ex_challenge_def)
  have c: "(earlier_completion ex_db_alone ex_challenge ex_session = None) =
           (earlier_completion ex_db_two_attempts ex_challenge ex_session = None)"
    using a b by simp
  show ?thesis by (rule scoring_deterministic [OF c])
qed

subsection \<open>Starting a challenge\<close>

text \<open>
  Claim C10. For a logged-in student and a challenge whose \<^verbatim>\<open>is_active\<close> flag is false,
  \<open>start_challenge\<close> creates no session and answers with the "not currently available"
  error. Nothing else is assumed, so the answer is the same whether or not the challenge
  has questions or the student has attempts left: the check comes first. The error is a
  constructor of its own, distinct from the five of the specification's taxonomy.
\<close>

theorem start_refuses_inactive:
  assumes "current_student ws = Some uid" and "get_challenge d cid = Some ch"
    and "\<not> c_is_active ch"
  shows "start_challenge d ws cid now = (d, Inl ChallengeInactive)"
  using assms by (simp add: start_challenge_def)

theorem start_refuses_inactive_witness:
  "question_count ex_db_inactive 1 = 1 \<and>
   \<not> attempt_limit_reached ex_db_inactive (ex_challenge\<lparr>c_is_active := False\<rparr>) 1 7 \<and>
   start_challenge ex_db_inactive ex_student 1 0 = (ex_db_inactive, Inl ChallengeInactive)"
proof -
  have a: "current_student ex_student = Some 7"
    by (simp add: current_student_def ex_student_def)
  have b: "get_challenge ex_db_inactive 1 = Some (ex_challenge\<lparr>c_is_active := False\<rparr>)"
    by (simp add: get_challenge_def ex_db_inactive_def ex_challenge_def)
  have c: "\<not> c_is_active (ex_challenge\<lparr>c_is_active := False\<rparr>)" by simp
  have q: "question_count ex_db_inactive 1 = 1"
    by (simp add: question_count_def ex_db_inactive_def ex_question_def)
  have l: "\<not> attempt_limit_reached ex_db_inactive (ex_challenge\<lparr>c_is_active := False\<rparr>) 1 7"
    by (simp add: attempt_limit_reached_def attempt_count_def ex_db_inactive_def
        ex_challenge_def)
  from q l start_refuses_inactive [OF a b c, of 0] show ?thesis by blast
qed

text \<open>
  Claim C7, as stated: whenever \<^verbatim>\<open>max_attempts\<close> is set and the number of the student's
  sessions for the challenge has reached it, \<open>start_challenge\<close> fails and creates no
  session. The handler's test is \<^verbatim>\<open>if challenge.max_attempts:\<close>, which the value 0 does
  not pass, and the form that creates or edits a challenge stores whatever integer it is
  given. With \<^verbatim>\<open>max_attempts = 0\<close> and two sessions (2 \<ge> 0) the student gets a third.
\<close>

theorem attempt_limit_zero_counterexample:
  "c_max_attempts (ex_challenge\<lparr>c_max_attempts := Some 0\<rparr>) = Some 0 \<and>
   attempt_count ex_db_zero_limit 1 7 = 2 \<and>
   start_challenge ex_db_zero_limit ex_student 1 0 =
     (ex_db_zero_limit\<lparr>sessions := [ex_session, ex_abandoned,
         \<lparr>s_id = 4, s_student_id = 7, s_challenge_id = 1, s_start_time = Some 0,
          s_end_time = None, s_status = ''in_progress'', s_score = 0, s_percentage = 0,
          s_points = 0, s_points_breakdown = None\<rparr>]\<rparr>,
      Inr (Created 4))"
  by (simp add: start_challenge_def current_student_def get_challenge_def question_count_def
      attempt_limit_reached_def attempt_count_def ongoing_session_def new_session_def
      next_id_def ex_db_zero_limit_def ex_student_def ex_challenge_def ex_question_def
      ex_session_def ex_abandoned_def)

text \<open>
  Claim C7, amended. The attempt count is the number of all sessions of the student for
  the challenge; their status is not looked at. When \<^verbatim>\<open>max_attempts\<close> is set to a value
  other than 0 and the count has reached it, \<open>start_challenge\<close> fails and leaves the store
  as it was; on an active challenge with questions, which is where the limiter is reached,
  the error is \<open>AttemptLimitExceeded\<close>. The witness is the third call with
  \<^verbatim>\<open>max_attempts = 2\<close> after a completed and an abandoned session.
\<close>

theorem attempt_limit_all_statuses:
  assumes "current_student ws = Some uid" and "get_challenge d cid = Some ch"
    and "c_max_attempts ch = Some m" and "m \<noteq> 0"
    and "m \<le> int (length (filter (\<lambda>s. s_challenge_id s = cid \<and> s_student_id s = uid)
                                  (sessions d)))"
  shows "fst (start_challenge d ws cid now) = d \<and>
         isl (snd (start_challenge d ws cid now)) \<and>
         (c_is_active ch \<and> question_count d cid \<noteq> 0 \<longrightarrow>
            start_challenge d ws cid now = (d, Inl AttemptLimitExceeded))"
proof -
  have "attempt_limit_reached d ch cid uid"
    using assms(3,4,5) by (simp add: attempt_limit_reached_def attempt_count_def)
  then show ?thesis
    using assms(1,2) by (simp add: start_challenge_def)
qed

theorem attempt_limit_all_statuses_witness:
  "map s_status (sessions ex_db_two_attempts) = [''completed'', ''abandoned''] \<and>
   start_challenge ex_db_two_attempts ex_student 1 0 =
     (ex_db_two_attempts, Inl AttemptLimitExceeded)"
proof -
  have a: "current_student ex_student = Some 7"
    by (simp add: current_student_def ex_student_def)
  have b: "get_challenge ex_db_two_attempts 1 = Some ex_challenge"
    by (simp add: get_challenge_def ex_db_two_attempts_def ex_challenge_def)
  have c: "c_max_attempts ex_challenge = Some 2" by (simp add: ex_challenge_def)
  have n: "(2::int) \<noteq> 0" by simp
  have e: "2 \<le> int (length (filter (\<lambda>s. s_challenge_id s = 1 \<and> s_student_id s = 7)
                                    (sessions ex_db_two_attempts)))"
    by (simp add: ex_db_two_attempts_def ex_session_def ex_abandoned_def)
  have q: "question_count ex_db_two_attempts 1 \<noteq> 0"
    by (simp add: question_count_def ex_db_two_attempts_def ex_question_def)
  have s: "map s_status (sessions ex_db_two_attempts) = [''completed'', ''abandoned'']"
    by (simp add: ex_db_two_attempts_def ex_session_def ex_abandoned_def)
  have act: "c_is_active ex_challenge" by (simp add: ex_challenge_def)
  from attempt_limit_all_statuses [OF a b c n e, of 0] q act
  have "start_challenge ex_db_two_attempts ex_student 1 0 =
          (ex_db_two_attempts, Inl AttemptLimitExceeded)"
    by blast
  with s show ?thesis by blast
qed

text \<open>
  When an in-progress session exists and the attempt limit has not been reached, the
  handler resumes it; and whatever the other checks say, it never creates a second session
  next to an in-progress one.
\<close>

lemma start_resumes_below_limit:
  assumes "current_student ws = Some uid" and "get_challenge d cid = Some ch"
    and "c_is_active ch" and "question_count d cid \<noteq> 0"
    and "\<not> attempt_limit_reached d ch cid uid"
    and "ongoing_session d cid uid = Some s"
  shows "start_challenge d ws cid now = (d, Inr (Resumed (s_id s)))"
  using assms by (simp add: start_challenge_def)

lemma start_with_ongoing_creates_nothing:
  assumes "ongoing_session d cid uid = Some s" and "current_student ws = Some uid"
  shows "fst (start_challenge d ws cid now) = d"
  using assms by (simp add: start_challenge_def split: option.splits)

text \<open>
  Claim C6. For every student and challenge, an in-progress session for the pair makes
  \<open>start_challenge\<close> return that session, whatever the student's other sessions are. The
  handler intends this (its last branch, "Continue existing session"), but it tests the
  attempt limit first, and the attempt count includes the in-progress session itself. On a
  challenge with \<^verbatim>\<open>max_attempts = 1\<close> (active, one question) the student's only session, in
  progress, is not resumed: the handler answers with the attempt-limit error.
\<close>

theorem start_last_attempt_not_resumed:
  "ongoing_session ex_db_last_attempt 1 7 = Some ex_in_progress \<and>
   start_challenge ex_db_last_attempt ex_student 1 0 =
     (ex_db_last_attempt, Inl AttemptLimitExceeded)"
  by (simp add: start_challenge_def current_student_def get_challenge_def question_count_def
      attempt_limit_reached_def attempt_count_def ongoing_session_def ex_db_last_attempt_def
      ex_student_def ex_challenge_def ex_question_def ex_in_progress_def)

subsection \<open>Submitting an answer\<close>

lemma ex_student_current: "current_student ex_student = Some 7"
  by (simp add: current_student_def ex_student_def)


lemma submit_keeps_sessions:
  "sessions (fst (submit_challenge_answer d ws sid form now)) = sessions d"
  by (simp add: submit_challenge_answer_def split: option.splits sum.splits)








subsection \<open>The answer validator\<close>

text \<open>
  For a multiple choice question the validator answers true exactly for a non-empty
  submission equal to the text of the option that \<^verbatim>\<open>correct_option\<close> selects (none for a
  letter other than A to D); for any other question type with a stored key it compares the
  stripped, lower-cased texts and answers false for an empty submission. It raises exactly
  for a non-empty submission to a question of another type whose key is \<^verbatim>\<open>None\<close>.
\<close>

lemma check_answer_multiple_choice:
  assumes "q_question_type q = ''multiple_choice''"
  shows "check_answer q ans = Inr (py_truthy_str ans \<and> ans = correct_option_text q)"
  using assms by (auto simp: check_answer_def py_truthy_str_def split: option.splits)

lemma correct_option_text_other_letter:
  assumes "q_correct_option q \<noteq> Some ''A''" and "q_correct_option q \<noteq> Some ''B''"
    and "q_correct_option q \<noteq> Some ''C''" and "q_correct_option q \<noteq> Some ''D''"
  shows "correct_option_text q = None"
  using assms by (simp add: correct_option_text_def)

lemma check_answer_text:
  assumes "q_question_type q \<noteq> ''multiple_choice''" and "q_answer q = Some correct_answer"
  shows "check_answer q ans =
           Inr (case ans of None \<Rightarrow> False
                | Some a \<Rightarrow> a \<noteq> [] \<and> py_lower (py_strip a) = py_lower (py_strip correct_answer))"
  using assms by (auto simp: check_answer_def split: option.splits)

lemma check_answer_raises_iff:
  "(check_answer q ans = Inl AttributeError) =
     (py_truthy_str ans \<and> q_question_type q \<noteq> ''multiple_choice'' \<and> q_answer q = None)"
  by (auto simp: check_answer_def py_truthy_str_def split: option.splits)

lemma strip_lower_example: "py_lower (py_strip ''  True '') = ''true''"
  by code_simp

text \<open>
  Claim C8. For every question and submitted answer the validator returns a boolean and
  never raises. For the text question below, whose \<^verbatim>\<open>answer\<close> column is \<^verbatim>\<open>NULL\<close> (the
  handler that creates challenges never fills that column), the submission \<^verbatim>\<open>'yes'\<close>
  makes \<^verbatim>\<open>correct_answer.strip()\<close> raise \<^verbatim>\<open>AttributeError\<close>; the handler's
  \<^verbatim>\<open>except Exception\<close> turns it into the generic error and no answer is stored.
\<close>

theorem validator_raises_on_missing_key:
  "check_answer ex_text_question (Some ''yes'') = Inl AttributeError \<and>
   submit_challenge_answer ex_db_text ex_student 4 ex_text_form 5 = (ex_db_text, Inl ServerError)"
  by (simp add: submit_challenge_answer_def current_student_def get_session_def
      get_question_def check_answer_def is_auto_submit_def py_truthy_str_def
      ex_db_text_def ex_student_def ex_text_form_def ex_in_progress_def ex_question_def
      ex_text_question_def)

subsection \<open>Completion\<close>

lemma get_session_id: "get_session d sid = Some cs \<Longrightarrow> s_id cs = sid"
  by (auto simp: get_session_def find_Some_iff)

lemma find_session_update:
  assumes "find (\<lambda>s. s_id s = sid) xs = Some cs" and "s_id cs' = sid"
  shows "find (\<lambda>s. s_id s = sid) (map (\<lambda>s. if s_id s = sid then cs' else s) xs) = Some cs'"
  using assms by (induction xs) (auto split: if_splits)

lemma get_session_update:
  assumes "get_session d sid = Some cs" and "s_id cs' = s_id cs"
  shows "get_session (update_session d cs') sid = Some cs'"
proof -
  from assms have i: "s_id cs' = sid" by (simp add: get_session_id)
  from assms(1) have "find (\<lambda>s. s_id s = sid) (sessions d) = Some cs"
    by (simp add: get_session_def)
  from find_session_update [OF this i] i show ?thesis
    by (simp add: get_session_def update_session_def)
qed

lemma first_unanswered_None:
  "(first_unanswered qs ids i = None) = list_all (\<lambda>q. q_id q \<in> set ids) qs"
  by (induction qs arbitrary: i) auto

lemma existing_answer_iff:
  "(existing_answer d sid qid \<noteq> None) = (qid \<in> set (map a_question_id (answers_of d sid)))"
  by (auto simp: existing_answer_def answers_of_def find_None_iff)

lemma ratio_6s_600: "float_div (total_seconds 6000000) (float_of_int 600) \<le> to_double (1 / 2)"
  by code_simp

lemma round_2_of_3: "py_round (float_mul (int_truediv 2 3) (float_of_int 100)) = 67"
  by code_simp

text \<open>
  The scoring function reads neither the points nor the stored breakdown of a session, so
  it gives the same result on the completed session before and after these two fields are
  written.
\<close>

lemma find_map_None_cong:
  assumes "\<And>x. P (f x) = Q (g x)"
  shows "(find P (map f xs) = None) = (find Q (map g xs) = None)"
  using assms by (induction xs) auto

lemma earlier_completion_ignores_points:
  "(earlier_completion (update_session d (cs\<lparr>s_points := p, s_points_breakdown := b\<rparr>)) ch
       (cs\<lparr>s_points := p, s_points_breakdown := b\<rparr>) = None) =
   (earlier_completion (update_session d cs) ch cs = None)"
  unfolding earlier_completion_def update_session_def
  by (simp, rule find_map_None_cong, simp)

lemma calculate_ignores_points:
  "calculate_challenge_points (update_session d (cs\<lparr>s_points := p, s_points_breakdown := b\<rparr>))
       (cs\<lparr>s_points := p, s_points_breakdown := b\<rparr>) ch n =
   calculate_challenge_points (update_session d cs) cs ch n"
  by (simp add: calculate_challenge_points_def speed_bonus_for_def
      earlier_completion_ignores_points)

lemma correct_count_answers_of:
  "correct_count (answers_of d sid) =
     int (length (filter (\<lambda>a. a_session_id a = sid \<and> a_is_correct a) (answers d)))"
  by (simp add: correct_count_def answers_of_def)

lemma take_challenge_completes_explicit:
  assumes "current_student ws = Some uid" and "get_session d sid = Some cs"
    and "s_student_id cs = uid" and "s_status cs \<noteq> ''completed''"
    and "get_challenge d (s_challenge_id cs) = Some ch"
    and "questions_of d (c_id ch) = qs" and "qs \<noteq> []"
    and "list_all (\<lambda>q. existing_answer d sid (q_id q) \<noteq> None) qs"
  shows "take_challenge d ws sid now =
           (complete_session d cs ch (length qs) (answers_of d sid) now, Inr CompletedNow)"
proof -
  have "list_all (\<lambda>q. q_id q \<in> set (map a_question_id (answers_of d sid))) qs"
    using assms(8) by (simp only: existing_answer_iff)
  then have none: "first_unanswered qs (map a_question_id (answers_of d sid)) 0 = None"
    by (simp only: first_unanswered_None)
  show ?thesis
    using assms(1-7) none by (simp add: take_challenge_def)
qed

text \<open>
  Claim C4. For the student's in-progress session on a challenge with questions, each of
  which has an answer in the session, \<open>take_challenge\<close> replaces the session's row, and
  only that row, by one whose score is the number of the session's answers that are marked
  correct, whose percentage is \<^verbatim>\<open>round(score / total_questions * 100)\<close> in Python's
  arithmetic, whose status is completed and whose end time is the current time; the points
  breakdown stored on it is the scoring function's result for this session in the resulting
  store, and its points are the total of that breakdown. Identity, owner, challenge and start
  time stay. No call of \<open>submit_challenge_answer\<close> changes the session table, so the status
  changes only here. The witness has two correct answers and a wrong one to three
  questions, beside another session's answer: score 2, percentage 67, 280 points.
\<close>

theorem take_challenge_completes:
  assumes "current_student ws = Some uid" and "get_session d sid = Some cs"
    and "s_student_id cs = uid" and "s_status cs = ''in_progress''"
    and "get_challenge d (s_challenge_id cs) = Some ch"
    and "questions_of d (c_id ch) = qs" and "qs \<noteq> []"
    and "list_all (\<lambda>q. existing_answer d sid (q_id q) \<noteq> None) qs"
  shows "\<exists>cs'. take_challenge d ws sid now =
                 (d\<lparr>sessions := map (\<lambda>s. if s_id s = sid then cs' else s) (sessions d)\<rparr>,
                  Inr CompletedNow) \<and>
           get_session (fst (take_challenge d ws sid now)) sid = Some cs' \<and>
           s_score cs' =
             int (length (filter (\<lambda>a. a_session_id a = sid \<and> a_is_correct a) (answers d))) \<and>
           s_percentage cs' =
             of_int (py_round (float_mul (int_truediv (s_score cs') (int (length qs)))
                                 (float_of_int 100))) \<and>
           s_status cs' = ''completed'' \<and> s_end_time cs' = Some now \<and>
           s_points_breakdown cs' =
             Some (calculate_challenge_points (fst (take_challenge d ws sid now)) cs' ch
                     (length qs)) \<and>
           s_points cs' =
             total_points (calculate_challenge_points (fst (take_challenge d ws sid now)) cs' ch
                             (length qs)) \<and>
           s_id cs' = s_id cs \<and> s_student_id cs' = s_student_id cs \<and>
           s_challenge_id cs' = s_challenge_id cs \<and> s_start_time cs' = s_start_time cs \<and>
           sessions (fst (submit_challenge_answer d' ws' sid' form now')) = sessions d'"
proof -
  let ?cs1 = "cs\<lparr>s_score := correct_count (answers_of d sid),
                  s_percentage := of_int (round_percentage (correct_count (answers_of d sid))
                                    (int (length qs))),
                  s_status := ''completed'', s_end_time := Some now\<rparr>"
  let ?pb = "calculate_challenge_points (update_session d ?cs1) ?cs1 ch (length qs)"
  let ?cs2 = "?cs1\<lparr>s_points := total_points ?pb, s_points_breakdown := Some ?pb\<rparr>"
  have nc: "s_status cs \<noteq> ''completed''" using assms(4) by simp
  have c: "complete_session d cs ch (length qs) (answers_of d sid) now = update_session d ?cs2"
    by (simp add: complete_session_def Let_def)
  have i: "s_id ?cs2 = sid" using assms(2) by (simp add: get_session_id)
  from take_challenge_completes_explicit [OF assms(1,2,3) nc assms(5-8), of now] c
  have t: "take_challenge d ws sid now = (update_session d ?cs2, Inr CompletedNow)" by simp
  have u: "update_session d ?cs2 =
             d\<lparr>sessions := map (\<lambda>s. if s_id s = sid then ?cs2 else s) (sessions d)\<rparr>"
    using i by (simp add: update_session_def)
  have "s_id ?cs2 = s_id cs" by simp
  from get_session_update [OF assms(2) this] t
  have g: "get_session (fst (take_challenge d ws sid now)) sid = Some ?cs2" by simp
  have pbe: "calculate_challenge_points (fst (take_challenge d ws sid now)) ?cs2 ch (length qs) = ?pb"
    using t by (simp add: calculate_ignores_points)
  have sc: "s_score ?cs2 =
      int (length (filter (\<lambda>a. a_session_id a = sid \<and> a_is_correct a) (answers d)))"
    by (simp add: correct_count_answers_of)
  have pc: "s_percentage ?cs2 =
      of_int (py_round (float_mul (int_truediv (s_score ?cs2) (int (length qs)))
                          (float_of_int 100)))"
    by (simp add: round_percentage_def)
  have pts: "s_points_breakdown ?cs2 =
      Some (calculate_challenge_points (fst (take_challenge d ws sid now)) ?cs2 ch (length qs))"
    "s_points ?cs2 =
      total_points (calculate_challenge_points (fst (take_challenge d ws sid now)) ?cs2 ch
                      (length qs))"
    unfolding pbe by simp_all
  have rest: "s_status ?cs2 = ''completed''" "s_end_time ?cs2 = Some now"
    "s_id ?cs2 = s_id cs" "s_student_id ?cs2 = s_student_id cs"
    "s_challenge_id ?cs2 = s_challenge_id cs" "s_start_time ?cs2 = s_start_time cs"
    by simp_all
  have k: "sessions (fst (submit_challenge_answer d' ws' sid' form now')) = sessions d'"
    by (rule submit_keeps_sessions)
  from t u have t': "take_challenge d ws sid now =
      (d\<lparr>sessions := map (\<lambda>s. if s_id s = sid then ?cs2 else s) (sessions d)\<rparr>,
       Inr CompletedNow)"
    by simp
  show ?thesis
    apply (rule exI [of _ ?cs2])
    apply (intro conjI)
    apply (rule t')
    apply (rule g)
    apply (rule sc)
    apply (rule pc)
    apply (rule rest(1))
    apply (rule rest(2))
    apply (rule pts(1))
    apply (rule pts(2))
    apply (rule rest(3))
    apply (rule rest(4))
    apply (rule rest(5))
    apply (rule rest(6))
    apply (rule k)
    done
qed

theorem take_challenge_completes_witness:
  "\<exists>cs'. get_session (fst (take_challenge ex_db_quiz ex_student 4 6000000)) 4 = Some cs' \<and>
         snd (take_challenge ex_db_quiz ex_student 4 6000000) = Inr CompletedNow \<and>
         s_score cs' = 2 \<and> s_percentage cs' = 67 \<and> s_status cs' = ''completed'' \<and>
         s_end_time cs' = Some 6000000 \<and> s_points cs' = 280 \<and>
         s_points_breakdown cs' =
           Some \<lparr>base_points = 50, correctness_bonus = 20, speed_bonus = 100,
                 completion_bonus = 10, first_completion_bonus = 100, total_points = 280\<rparr>"
proof -
  let ?qs = "[ex_question, ex_question_b, ex_question_c]"
  let ?d = "fst (take_challenge ex_db_quiz ex_student 4 6000000)"
  have g: "get_session ex_db_quiz 4 = Some ex_in_progress"
    by (simp add: get_session_def ex_db_quiz_def ex_in_progress_def ex_rival_def)
  have o: "s_student_id ex_in_progress = 7" by (simp add: ex_in_progress_def)
  have s: "s_status ex_in_progress = ''in_progress''" by (simp add: ex_in_progress_def)
  have c: "get_challenge ex_db_quiz (s_challenge_id ex_in_progress) = Some ex_challenge"
    by (simp add: get_challenge_def ex_db_quiz_def ex_in_progress_def ex_challenge_def)
  have q: "questions_of ex_db_quiz (c_id ex_challenge) = ?qs"
    by (simp add: questions_of_def ex_db_quiz_def ex_challenge_def ex_question_def
        ex_question_b_def ex_question_c_def)
  have n: "?qs \<noteq> []" by simp
  have a: "list_all (\<lambda>q. existing_answer ex_db_quiz 4 (q_id q) \<noteq> None) ?qs"
    by (simp add: existing_answer_def ex_db_quiz_def ex_quiz_answers_def ex_question_def
        ex_question_b_def ex_question_c_def)
  from take_challenge_completes [OF ex_student_current g o s c q n a, of 6000000]
  obtain cs' where t: "take_challenge ex_db_quiz ex_student 4 6000000 =
        (ex_db_quiz\<lparr>sessions := map (\<lambda>s. if s_id s = 4 then cs' else s) (sessions ex_db_quiz)\<rparr>,
         Inr CompletedNow)"
    and gs: "get_session ?d 4 = Some cs'"
    and sc: "s_score cs' =
        int (length (filter (\<lambda>a. a_session_id a = 4 \<and> a_is_correct a) (answers ex_db_quiz)))"
    and pc: "s_percentage cs' =
        of_int (py_round (float_mul (int_truediv (s_score cs') (int (length ?qs)))
                            (float_of_int 100)))"
    and st: "s_status cs' = ''completed''" and en: "s_end_time cs' = Some 6000000"
    and pb: "s_points_breakdown cs' =
        Some (calculate_challenge_points ?d cs' ex_challenge (length ?qs))"
    and pts: "s_points cs' =
        total_points (calculate_challenge_points ?d cs' ex_challenge (length ?qs))"
    and bt: "s_start_time cs' = s_start_time ex_in_progress"
    by blast
  have sc2: "s_score cs' = 2"
    using sc by (simp add: ex_db_quiz_def ex_quiz_answers_def)
  have pc2: "s_percentage cs' = 67"
    using pc by (simp add: sc2 round_2_of_3)
  have f: "?d = ex_db_quiz\<lparr>sessions := [ex_rival, cs']\<rparr>"
    using t by (simp add: ex_db_quiz_def ex_rival_def ex_in_progress_def)
  have sp: "speed_bonus_for ex_challenge cs' = 100"
    using en bt ratio_6s_600 by (simp add: speed_bonus_for_def ex_challenge_def ex_in_progress_def)
  have ec: "earlier_completion ?d ex_challenge cs' = None"
    unfolding f using en by (simp add: earlier_completion_def ex_rival_def ex_challenge_def)
  have pbv: "calculate_challenge_points ?d cs' ex_challenge (length ?qs) =
      \<lparr>base_points = 50, correctness_bonus = 20, speed_bonus = 100,
       completion_bonus = 10, first_completion_bonus = 100, total_points = 280\<rparr>"
    using sp ec by (simp add: calculate_challenge_points_def completion_bonus_for_def sc2 pc2)
  have r: "snd (take_challenge ex_db_quiz ex_student 4 6000000) = Inr CompletedNow"
    using t by simp
  from pb pbv have pb2: "s_points_breakdown cs' =
      Some \<lparr>base_points = 50, correctness_bonus = 20, speed_bonus = 100,
            completion_bonus = 10, first_completion_bonus = 100, total_points = 280\<rparr>"
    by simp
  from pts pbv have pts2: "s_points cs' = 280" by simp
  from gs r sc2 pc2 st en pts2 pb2 show ?thesis by blast
qed

lemma take_challenge_completed_noop:
  assumes "current_student ws = Some uid" and "get_session d sid = Some cs"
    and "s_student_id cs = uid" and "s_status cs = ''completed''"
  shows "take_challenge d ws sid now = (d, Inr AlreadyCompleted)"
  using assms by (simp add: take_challenge_def)

lemma take_challenge_CompletedNow:
  assumes "take_challenge d ws sid now = (d', Inr CompletedNow)"
  shows "\<exists>uid cs ch. current_student ws = Some uid \<and> get_session d sid = Some cs \<and>
           s_student_id cs = uid \<and> get_challenge d (s_challenge_id cs) = Some ch \<and>
           questions_of d (c_id ch) \<noteq> [] \<and>
           d' = complete_session d cs ch (length (questions_of d (c_id ch)))
                  (answers_of d sid) now"
  using assms
  by (auto simp: take_challenge_def Let_def split: option.splits if_splits prod.splits)

lemma length_questions_of: "length (questions_of d cid) = question_count d cid"
  by (simp add: questions_of_def question_count_def)

lemma complete_session_tables:
  "challenges (complete_session d cs ch n answered now) = challenges d"
  "questions (complete_session d cs ch n answered now) = questions d"
  "answers (complete_session d cs ch n answered now) = answers d"
  by (simp_all add: complete_session_def Let_def update_session_def)

lemma get_session_complete:
  assumes "get_session d sid = Some cs"
  shows "\<exists>cs'. get_session (complete_session d cs ch n answered now) sid = Some cs' \<and>
           s_student_id cs' = s_student_id cs \<and> s_challenge_id cs' = s_challenge_id cs \<and>
           s_status cs' = ''completed'' \<and> s_score cs' = correct_count answered \<and>
           s_percentage cs' = of_int (round_percentage (correct_count answered) (int n)) \<and>
           s_end_time cs' = Some now \<and>
           (\<exists>pb. s_points_breakdown cs' = Some pb \<and> s_points cs' = total_points pb)"
proof -
  let ?cs1 = "cs\<lparr>s_score := correct_count answered,
                  s_percentage := of_int (round_percentage (correct_count answered) (int n)),
                  s_status := ''completed'', s_end_time := Some now\<rparr>"
  let ?pb = "calculate_challenge_points (update_session d ?cs1) ?cs1 ch n"
  let ?cs2 = "?cs1\<lparr>s_points := total_points ?pb, s_points_breakdown := Some ?pb\<rparr>"
  have e: "complete_session d cs ch n answered now = update_session d ?cs2"
    by (simp add: complete_session_def Let_def)
  have "s_id ?cs2 = s_id cs" by simp
  from get_session_update [OF assms this] e
  have "get_session (complete_session d cs ch n answered now) sid = Some ?cs2" by simp
  then show ?thesis by simp
qed

lemma results_consistent:
  assumes "current_student ws = Some uid" and "get_session d sid = Some cs"
    and "s_student_id cs = uid" and "s_status cs = ''completed''"
    and "get_challenge d (s_challenge_id cs) = Some ch"
    and "question_count d (c_id ch) > 0"
    and "s_score cs = correct_count (answers_of d sid)"
    and "s_percentage cs = of_int (round_percentage (correct_count (answers_of d sid))
                                     (int (question_count d (c_id ch))))"
  shows "fst (challenge_results d ws sid) = d \<and>
         (\<exists>r. snd (challenge_results d ws sid) = Inr r \<and> r_session r = cs \<and>
              r_correct_answers r = s_score cs \<and> of_int (r_percentage r) = s_percentage cs \<and>
              r_points_breakdown r = s_points_breakdown cs)"
  using assms by (simp add: challenge_results_def Let_def)

lemma results_keep_points:
  assumes "get_session d sid = Some cs"
  shows "\<exists>cs'. get_session (fst (challenge_results d ws sid)) sid = Some cs' \<and>
           s_points cs' = s_points cs \<and> s_points_breakdown cs' = s_points_breakdown cs \<and>
           s_status cs' = s_status cs \<and> s_end_time cs' = s_end_time cs"
proof -
  have u: "\<And>x y. get_session (update_session d (cs\<lparr>s_score := x, s_percentage := y\<rparr>)) sid =
             Some (cs\<lparr>s_score := x, s_percentage := y\<rparr>)"
    by (rule get_session_update [OF assms]) simp
  show ?thesis
    using assms u
    by (simp add: challenge_results_def Let_def split: option.splits)
qed

text \<open>
  Claim C2. On a session whose status is completed, \<open>take_challenge\<close> changes nothing
  and sends the student to the results; \<open>challenge_results\<close> never changes the points, the
  breakdown, the status or the end time of a completed session, so points are awarded once,
  by the call that completed the session. (The results handler recounts the correct answers
  and writes score and percentage back only where they differ from the stored ones; after
  a completion by \<open>take_challenge\<close> they do not.) After a call that has just completed a session, a
  second call is this no-op, and the results handler leaves the store as it is and reports
  the stored score, percentage and breakdown.
\<close>

theorem completion_idempotent:
  "(current_student ws = Some uid \<and> get_session d sid = Some cs \<and> s_student_id cs = uid \<and>
    s_status cs = ''completed'' \<longrightarrow>
      take_challenge d ws sid now = (d, Inr AlreadyCompleted) \<and>
      (\<exists>cs'. get_session (fst (challenge_results d ws sid)) sid = Some cs' \<and>
             s_points cs' = s_points cs \<and> s_points_breakdown cs' = s_points_breakdown cs \<and>
             s_status cs' = s_status cs \<and> s_end_time cs' = s_end_time cs)) \<and>
   (take_challenge dprev ws sid tprev = (d, Inr CompletedNow) \<longrightarrow>
      take_challenge d ws sid now = (d, Inr AlreadyCompleted) \<and>
      fst (challenge_results d ws sid) = d \<and>
      (\<exists>cs1 r. get_session d sid = Some cs1 \<and> snd (challenge_results d ws sid) = Inr r \<and>
           r_session r = cs1 \<and> r_correct_answers r = s_score cs1 \<and>
           of_int (r_percentage r) = s_percentage cs1 \<and>
           r_points_breakdown r = s_points_breakdown cs1 \<and>
           (\<exists>pb. s_points_breakdown cs1 = Some pb \<and> s_points cs1 = total_points pb)))"
proof (intro conjI impI)
  assume h: "current_student ws = Some uid \<and> get_session d sid = Some cs \<and>
             s_student_id cs = uid \<and> s_status cs = ''completed''"
  then show "take_challenge d ws sid now = (d, Inr AlreadyCompleted)"
    using take_challenge_completed_noop by blast
  from h have "get_session d sid = Some cs" by blast
  then show "\<exists>cs'. get_session (fst (challenge_results d ws sid)) sid = Some cs' \<and>
             s_points cs' = s_points cs \<and> s_points_breakdown cs' = s_points_breakdown cs \<and>
             s_status cs' = s_status cs \<and> s_end_time cs' = s_end_time cs"
    by (rule results_keep_points)
next
  assume t: "take_challenge dprev ws sid tprev = (d, Inr CompletedNow)"
  from take_challenge_CompletedNow [OF t] obtain uid0 cs0 ch
    where u: "current_student ws = Some uid0" and g0: "get_session dprev sid = Some cs0"
      and o: "s_student_id cs0 = uid0"
      and c0: "get_challenge dprev (s_challenge_id cs0) = Some ch"
      and q0: "questions_of dprev (c_id ch) \<noteq> []"
      and dd: "d = complete_session dprev cs0 ch (length (questions_of dprev (c_id ch)))
                     (answers_of dprev sid) tprev"
    by blast
  from get_session_complete [OF g0, of ch "length (questions_of dprev (c_id ch))"
      "answers_of dprev sid" tprev] dd
  obtain cs1 where g1: "get_session d sid = Some cs1"
    and o1: "s_student_id cs1 = s_student_id cs0" and ci: "s_challenge_id cs1 = s_challenge_id cs0"
    and st: "s_status cs1 = ''completed''"
    and sc: "s_score cs1 = correct_count (answers_of dprev sid)"
    and pc: "s_percentage cs1 =
               of_int (round_percentage (correct_count (answers_of dprev sid))
                         (int (length (questions_of dprev (c_id ch)))))"
    and pb: "\<exists>pb. s_points_breakdown cs1 = Some pb \<and> s_points cs1 = total_points pb"
    by auto
  have o1': "s_student_id cs1 = uid0" using o1 o by simp
  show n: "take_challenge d ws sid now = (d, Inr AlreadyCompleted)"
    by (rule take_challenge_completed_noop [OF u g1 o1' st])
  have ch1: "get_challenge d (s_challenge_id cs1) = Some ch"
    using c0 ci dd by (simp add: get_challenge_def complete_session_tables)
  have qc: "question_count d (c_id ch) = length (questions_of dprev (c_id ch))"
    using dd by (simp add: length_questions_of question_count_def complete_session_tables)
  have qpos: "question_count d (c_id ch) > 0" using qc q0 by simp
  have an: "answers_of d sid = answers_of dprev sid"
    using dd by (simp add: answers_of_def complete_session_tables)
  have sc': "s_score cs1 = correct_count (answers_of d sid)" using sc an by simp
  have pc': "s_percentage cs1 = of_int (round_percentage (correct_count (answers_of d sid))
                                     (int (question_count d (c_id ch))))"
    using pc an qc by simp
  from results_consistent [OF u g1 o1' st ch1 qpos sc' pc']
  have f: "fst (challenge_results d ws sid) = d"
    and r: "\<exists>r. snd (challenge_results d ws sid) = Inr r \<and> r_session r = cs1 \<and>
              r_correct_answers r = s_score cs1 \<and> of_int (r_percentage r) = s_percentage cs1 \<and>
              r_points_breakdown r = s_points_breakdown cs1"
    by blast+
  show "fst (challenge_results d ws sid) = d" by (rule f)
  from g1 r pb show "\<exists>cs1 r. get_session d sid = Some cs1 \<and>
           snd (challenge_results d ws sid) = Inr r \<and>
           r_session r = cs1 \<and> r_correct_answers r = s_score cs1 \<and>
           of_int (r_percentage r) = s_percentage cs1 \<and>
           r_points_breakdown r = s_points_breakdown cs1 \<and>
           (\<exists>pb. s_points_breakdown cs1 = Some pb \<and> s_points cs1 = total_points pb)"
    by blast
qed

theorem completion_idempotent_witness:
  "take_challenge ex_db_two_attempts ex_student 1 9 = (ex_db_two_attempts, Inr AlreadyCompleted) \<and>
   take_challenge (fst (take_challenge ex_db_all_answered ex_student 4 6000000)) ex_student 4 9 =
     (fst (take_challenge ex_db_all_answered ex_student 4 6000000), Inr AlreadyCompleted) \<and>
   fst (challenge_results (fst (take_challenge ex_db_all_answered ex_student 4 6000000))
          ex_student 4) =
     fst (take_challenge ex_db_all_answered ex_student 4 6000000)"
proof -
  have g: "get_session ex_db_two_attempts 1 = Some ex_session"
    by (simp add: get_session_def ex_db_two_attempts_def ex_session_def)
  have o: "s_student_id ex_session = 7" by (simp add: ex_session_def)
  have s: "s_status ex_session = ''completed''" by (simp add: ex_session_def)
  have t: "snd (take_challenge ex_db_all_answered ex_student 4 6000000) = Inr CompletedNow"
    by (simp add: take_challenge_def ex_student_current get_session_def get_challenge_def
        questions_of_def answers_of_def ex_db_all_answered_def ex_in_progress_def ex_rival_def
        ex_challenge_def ex_question_def ex_first_answer_def Let_def)
  then have t': "take_challenge ex_db_all_answered ex_student 4 6000000 =
      (fst (take_challenge ex_db_all_answered ex_student 4 6000000), Inr CompletedNow)"
    by (simp add: prod_eq_iff)
  note th = completion_idempotent [where ws = ex_student and sid = 4 and now = 9
      and dprev = ex_db_all_answered and tprev = 6000000
      and d = "fst (take_challenge ex_db_all_answered ex_student 4 6000000)"]
  note th1 = completion_idempotent [where ws = ex_student and sid = 1 and now = 9
      and d = ex_db_two_attempts and uid = 7 and cs = ex_session]
  from th1 ex_student_current g o s
  have a: "take_challenge ex_db_two_attempts ex_student 1 9 =
      (ex_db_two_attempts, Inr AlreadyCompleted)"
    by blast
  from th t' have "take_challenge (fst (take_challenge ex_db_all_answered ex_student 4 6000000))
      ex_student 4 9 =
     (fst (take_challenge ex_db_all_answered ex_student 4 6000000), Inr AlreadyCompleted) \<and>
   fst (challenge_results (fst (take_challenge ex_db_all_answered ex_student 4 6000000))
          ex_student 4) =
     fst (take_challenge ex_db_all_answered ex_student 4 6000000)"
    by blast
  with a show ?thesis by blast
qed

end
